theory Spec2Isabelle
  imports Main "HOL-Library.Multiset"
begin

section \<open>Data model\<close>

text \<open>
  The Mongoose schemas of \<^verbatim>\<open>models/User.js\<close>, \<^verbatim>\<open>models/Post.js\<close> and
  \<^verbatim>\<open>models/Message.js\<close>. An ObjectId is an abstract identifier, a date a number of
  milliseconds. A field that a schema does not require is an option. The password of a
  stored user is always present (the schema requires it); it is an option because the
  projection \<^verbatim>\<open>select('-password')\<close> yields a document without it.
\<close>

type_synonym oid = nat
type_synonym date = nat

record user =
  u_id :: oid
  username :: string
  email :: string
  password :: "string option"
  bio :: "string option"
  profilePicture :: "string option"
  followers :: "oid list"
  following :: "oid list"
  u_createdAt :: date
  u_updatedAt :: date

record comment =
  c_user :: "oid option"
  c_text :: string
  c_createdAt :: date

record post =
  p_id :: oid
  p_user :: oid
  p_content :: string
  p_image :: "string option"
  likes :: "oid list"
  comments :: "comment list"
  p_createdAt :: date
  p_updatedAt :: date

record message =
  m_id :: oid
  sender :: oid
  recipient :: oid
  m_content :: string
  read :: bool
  m_createdAt :: date
  m_updatedAt :: date

text \<open>
  The document store: one list per collection, in insertion order. The field
  \<open>hash_calls\<close> is not part of the store: it counts the calls of \<^verbatim>\<open>bcrypt.hash\<close>
  made so far, so that "before any hashing" can be stated.
\<close>

record world =
  users :: "user list"
  posts :: "post list"
  messages :: "message list"
  hash_calls :: nat

text \<open>
  The libraries the code calls and whose sources are not part of the repository are
  parameters: \<^verbatim>\<open>jwt.sign\<close> and \<^verbatim>\<open>jwt.verify\<close> under the configured secret
  (\<open>jwt_verify\<close> gives the \<^verbatim>\<open>id\<close> of the decoded payload, or \<open>None\<close> where the
  library throws), \<^verbatim>\<open>bcrypt.hash\<close> with its fresh salt, \<^verbatim>\<open>bcrypt.compare\<close>, and
  Mongoose's cast of a string to an ObjectId (\<open>None\<close> where it raises a CastError).
\<close>

record lib =
  jwt_sign :: "oid \<Rightarrow> string"
  jwt_verify :: "string \<Rightarrow> string option"
  bcrypt_hash :: "string \<Rightarrow> string"
  bcrypt_compare :: "string \<Rightarrow> string \<Rightarrow> bool"
  cast_id :: "string \<Rightarrow> oid option"

text \<open>What a request takes from its environment: the ObjectId generated for a new
  document and the current time.\<close>

record env =
  new_id :: oid
  now :: date

section \<open>Requests, responses and outcomes\<close>

datatype meth = GET | POST | PUT | DELETE

text \<open>
  A request: its method, the non-empty segments of its path, the
  \<^verbatim>\<open>Authorization\<close> header when there is one, and the JSON body parsed by
  \<^verbatim>\<open>express.json()\<close>, a map from field names to values (an absent body is the
  empty map). Body values are strings.
\<close>

record request =
  req_method :: meth
  path :: "string list"
  authorization :: "string option"
  req_body :: "string \<rightharpoonup> string"

record profile =
  pr_id :: oid
  pr_username :: string
  pr_profilePicture :: "string option"

type_synonym post_view = "post \<times> profile option \<times> (oid \<times> string) option list"

datatype body =
    Msg string
  | AuthBody oid string string string
  | PostDoc post
  | PostView post_view
  | PostViews "post_view list"
  | MessageDoc message
  | MessageView message "profile option" "profile option"
  | MessageViews "(message \<times> profile option) list"
  | NoRoute

record response =
  status :: nat
  body :: body

text \<open>
  The handlers are \<^verbatim>\<open>async\<close> functions with no \<^verbatim>\<open>try\<close>: an exception in one of
  them rejects its promise and no response is sent.
\<close>

datatype error = TypeError | ValidationError | DuplicateKey | CastError | IllegalArguments

datatype outcome = Sent response | Thrown error

section \<open>Store queries\<close>

definition findById_user :: "world \<Rightarrow> oid \<Rightarrow> user option" where
  "findById_user w i = find (\<lambda>u. u_id u = i) (users w)"

definition findById_post :: "world \<Rightarrow> oid \<Rightarrow> post option" where
  "findById_post w i = find (\<lambda>p. p_id p = i) (posts w)"

definition findById_message :: "world \<Rightarrow> oid \<Rightarrow> message option" where
  "findById_message w i = find (\<lambda>m. m_id m = i) (messages w)"

text \<open>\<^verbatim>\<open>User.findOne({ email })\<close>; with \<^verbatim>\<open>email\<close> undefined no stored user
  matches, since every stored user has an email.\<close>

definition findOne_email :: "world \<Rightarrow> string option \<Rightarrow> user option" where
  "findOne_email w e =
     (case e of None \<Rightarrow> None | Some a \<Rightarrow> find (\<lambda>u. email u = a) (users w))"

text \<open>\<^verbatim>\<open>populate(path, '_id username profilePicture')\<close>: the referenced user, cut
  down to the selected fields, or null when no such user is stored.\<close>

definition populate_user :: "world \<Rightarrow> oid \<Rightarrow> profile option" where
  "populate_user w i =
     map_option (\<lambda>u. \<lparr>pr_id = u_id u, pr_username = username u,
                      pr_profilePicture = profilePicture u\<rparr>) (findById_user w i)"

text \<open>The nested populate of the \<^verbatim>\<open>user\<close> of each comment, selecting
  \<^verbatim>\<open>_id username\<close>.\<close>

definition populate_comment :: "world \<Rightarrow> comment \<Rightarrow> (oid \<times> string) option" where
  "populate_comment w c =
     (case c_user c of None \<Rightarrow> None
      | Some i \<Rightarrow> map_option (\<lambda>u. (u_id u, username u)) (findById_user w i))"

definition populate_post :: "world \<Rightarrow> post \<Rightarrow> post_view" where
  "populate_post w p = (p, populate_user w (p_user p), map (populate_comment w) (comments p))"

text \<open>\<^verbatim>\<open>.sort({ createdAt: -1 })\<close>: newest first; documents created at the same
  time keep their insertion order.\<close>

definition newest_first :: "('a \<Rightarrow> date) \<Rightarrow> 'a list \<Rightarrow> 'a list" where
  "newest_first created xs = sort_key (\<lambda>x. - int (created x)) xs"

text \<open>\<^verbatim>\<open>post.remove()\<close> deletes the one document with the post's id.\<close>

fun remove_post :: "oid \<Rightarrow> post list \<Rightarrow> post list" where
  "remove_post i [] = []"
| "remove_post i (p # ps) = (if p_id p = i then ps else p # remove_post i ps)"

section \<open>The auth gate (middleware/authMiddleware.js)\<close>

text \<open>\<^verbatim>\<open>s.split(' ')\<close> of JavaScript: the pieces between the spaces, empty ones
  included; the empty string gives one empty piece.\<close>

fun split_space :: "string \<Rightarrow> string list" where
  "split_space [] = [[]]"
| "split_space (c # cs) =
     (if c = CHR '' '' then [] # split_space cs
      else (case split_space cs of [] \<Rightarrow> [[c]] | w # ws \<Rightarrow> (c # w) # ws))"

definition second :: "'a list \<Rightarrow> 'a option" where
  "second xs = (case xs of _ # t # _ \<Rightarrow> Some t | _ \<Rightarrow> None)"

definition no_token :: response where
  "no_token = \<lparr>status = 401, body = Msg ''Not authorized, no token''\<rparr>"

definition token_failed :: response where
  "token_failed = \<lparr>status = 401, body = Msg ''Not authorized, token failed''\<rparr>"

text \<open>The gate either answers itself or calls \<^verbatim>\<open>next()\<close> with \<^verbatim>\<open>req.user\<close>
  set, possibly to null.\<close>

datatype gate = Rejected response | Proceed "user option"

text \<open>
  The header must be a non-empty string that starts with \<^verbatim>\<open>Bearer\<close>; the token is
  the second piece of the header split at spaces. \<^verbatim>\<open>jwt.verify\<close> throws on an
  undefined or empty token, as it does on a token that does not verify, and
  \<^verbatim>\<open>findById\<close> throws on an id that is no ObjectId; the \<^verbatim>\<open>catch\<close> answers 401
  "token failed". Where the token is undefined or empty the statement after the
  \<^verbatim>\<open>try\<close> attempts a second answer; the first one is the one sent. The result of
  \<^verbatim>\<open>findById(decoded.id).select('-password')\<close> is assigned to \<^verbatim>\<open>req.user\<close> and
  \<^verbatim>\<open>next()\<close> is called, whether a user was found or not.
\<close>

definition authMiddleware :: "lib \<Rightarrow> world \<Rightarrow> request \<Rightarrow> gate" where
  "authMiddleware L w rq =
     (case authorization rq of
        None \<Rightarrow> Rejected no_token
      | Some h \<Rightarrow>
          if h \<noteq> [] \<and> take 6 h = ''Bearer'' then
            (case second (split_space h) of
               None \<Rightarrow> Rejected token_failed
             | Some t \<Rightarrow>
                 if t = [] then Rejected token_failed
                 else (case jwt_verify L t of
                         None \<Rightarrow> Rejected token_failed
                       | Some sid \<Rightarrow>
                           (case cast_id L sid of
                              None \<Rightarrow> Rejected token_failed
                            | Some i \<Rightarrow>
                                Proceed (map_option (\<lambda>u. u\<lparr>password := None\<rparr>)
                                           (findById_user w i)))))
          else Rejected no_token)"

section \<open>Post handlers (controllers/postController.js)\<close>

definition post_not_found :: response where
  "post_not_found = \<lparr>status = 404, body = Msg ''Post not found''\<rparr>"

text \<open>
  \<^verbatim>\<open>createPost\<close> takes \<^verbatim>\<open>content\<close> and \<^verbatim>\<open>image\<close> from the body and the owner
  from \<^verbatim>\<open>req.user._id\<close>, which throws when \<^verbatim>\<open>req.user\<close> is null. \<^verbatim>\<open>save()\<close>
  validates the document against the schema first: \<^verbatim>\<open>content\<close> is required, and a
  required string must not be empty.
\<close>

definition createPost :: "env \<Rightarrow> world \<Rightarrow> user option \<Rightarrow> (string \<rightharpoonup> string) \<Rightarrow> world \<times> outcome" where
  "createPost E w ru b =
     (let content = b ''content''; image = b ''image'' in
      case ru of
        None \<Rightarrow> (w, Thrown TypeError)
      | Some u \<Rightarrow>
          (case content of
             None \<Rightarrow> (w, Thrown ValidationError)
           | Some c \<Rightarrow>
               if c = [] then (w, Thrown ValidationError)
               else
                 let p = \<lparr>p_id = new_id E, p_user = u_id u, p_content = c, p_image = image,
                          likes = [], comments = [], p_createdAt = now E, p_updatedAt = now E\<rparr>
                 in (w\<lparr>posts := posts w @ [p]\<rparr>, Sent \<lparr>status = 201, body = PostDoc p\<rparr>)))"

definition getPosts :: "world \<Rightarrow> world \<times> outcome" where
  "getPosts w =
     (w, Sent \<lparr>status = 200,
               body = PostViews (map (populate_post w) (newest_first p_createdAt (posts w)))\<rparr>)"

definition getPost :: "lib \<Rightarrow> world \<Rightarrow> string \<Rightarrow> world \<times> outcome" where
  "getPost L w idp =
     (case cast_id L idp of
        None \<Rightarrow> (w, Thrown CastError)
      | Some i \<Rightarrow>
          (case findById_post w i of
             Some p \<Rightarrow> (w, Sent \<lparr>status = 200, body = PostView (populate_post w p)\<rparr>)
           | None \<Rightarrow> (w, Sent post_not_found)))"

text \<open>
  \<^verbatim>\<open>deletePost\<close>: the condition \<^verbatim>\<open>post && post.user.equals(req.user._id)\<close> reads
  \<^verbatim>\<open>req.user._id\<close> only when the post exists.
\<close>

definition deletePost :: "lib \<Rightarrow> world \<Rightarrow> user option \<Rightarrow> string \<Rightarrow> world \<times> outcome" where
  "deletePost L w ru idp =
     (case cast_id L idp of
        None \<Rightarrow> (w, Thrown CastError)
      | Some i \<Rightarrow>
          (case findById_post w i of
             None \<Rightarrow> (w, Sent post_not_found)
           | Some p \<Rightarrow>
               (case ru of
                  None \<Rightarrow> (w, Thrown TypeError)
                | Some u \<Rightarrow>
                    if p_user p = u_id u then
                      (w\<lparr>posts := remove_post (p_id p) (posts w)\<rparr>,
                       Sent \<lparr>status = 200, body = Msg ''Post removed''\<rparr>)
                    else (w, Sent post_not_found))))"

section \<open>Message handlers (controllers/messageController.js)\<close>

definition message_not_found :: response where
  "message_not_found = \<lparr>status = 404, body = Msg ''Message not found''\<rparr>"

text \<open>
  \<^verbatim>\<open>sendMessage\<close> takes \<^verbatim>\<open>recipient\<close> and \<^verbatim>\<open>content\<close> from the body and the
  sender from \<^verbatim>\<open>req.user._id\<close>. \<^verbatim>\<open>save()\<close> validates: both fields are required,
  the recipient must cast to an ObjectId, the content must not be empty. The users
  collection is not consulted.
\<close>

definition sendMessage :: "lib \<Rightarrow> env \<Rightarrow> world \<Rightarrow> user option \<Rightarrow> (string \<rightharpoonup> string) \<Rightarrow> world \<times> outcome" where
  "sendMessage L E w ru b =
     (let recipient = b ''recipient''; content = b ''content'' in
      case ru of
        None \<Rightarrow> (w, Thrown TypeError)
      | Some u \<Rightarrow>
          (case (case recipient of None \<Rightarrow> None | Some r \<Rightarrow> cast_id L r, content) of
             (Some r, Some c) \<Rightarrow>
               if c = [] then (w, Thrown ValidationError)
               else
                 let m = \<lparr>m_id = new_id E, sender = u_id u, recipient = r, m_content = c,
                          read = False, m_createdAt = now E, m_updatedAt = now E\<rparr>
                 in (w\<lparr>messages := messages w @ [m]\<rparr>, Sent \<lparr>status = 201, body = MessageDoc m\<rparr>)
           | _ \<Rightarrow> (w, Thrown ValidationError)))"

definition getMessages :: "world \<Rightarrow> user option \<Rightarrow> world \<times> outcome" where
  "getMessages w ru =
     (case ru of
        None \<Rightarrow> (w, Thrown TypeError)
      | Some u \<Rightarrow>
          (w, Sent \<lparr>status = 200,
                    body = MessageViews
                      (map (\<lambda>m. (m, populate_user w (sender m)))
                         (newest_first m_createdAt
                            (filter (\<lambda>m. recipient m = u_id u) (messages w))))\<rparr>))"

text \<open>\<^verbatim>\<open>getMessage\<close> does not read \<^verbatim>\<open>req.user\<close>.\<close>

definition getMessage :: "lib \<Rightarrow> world \<Rightarrow> string \<Rightarrow> world \<times> outcome" where
  "getMessage L w idp =
     (case cast_id L idp of
        None \<Rightarrow> (w, Thrown CastError)
      | Some i \<Rightarrow>
          (case findById_message w i of
             Some m \<Rightarrow>
               (w, Sent \<lparr>status = 200,
                         body = MessageView m (populate_user w (sender m))
                                  (populate_user w (recipient m))\<rparr>)
           | None \<Rightarrow> (w, Sent message_not_found)))"

section \<open>Registration and login (controllers/authController.js)\<close>

text \<open>
  \<^verbatim>\<open>User.create\<close>: the document is validated (username, email and password are
  required and not empty), then the \<^verbatim>\<open>pre('save')\<close> hook of the schema hashes the
  password, then the document is inserted; the insert fails on the unique indexes of
  \<^verbatim>\<open>username\<close> and \<^verbatim>\<open>email\<close>.
\<close>

definition User_create ::
  "lib \<Rightarrow> env \<Rightarrow> world \<Rightarrow> string option \<Rightarrow> string option \<Rightarrow> string option \<Rightarrow> world \<times> (error + user)" where
  "User_create L E w un em pw =
     (case (un, em, pw) of
        (Some n, Some e, Some p) \<Rightarrow>
          if n = [] \<or> e = [] \<or> p = [] then (w, Inl ValidationError)
          else
            let w1 = w\<lparr>hash_calls := hash_calls w + 1\<rparr>;
                u = \<lparr>u_id = new_id E, username = n, email = e,
                     password = Some (bcrypt_hash L p), bio = None, profilePicture = None,
                     followers = [], following = [],
                     u_createdAt = now E, u_updatedAt = now E\<rparr>
            in if list_ex (\<lambda>x. username x = n \<or> email x = e) (users w)
               then (w1, Inl DuplicateKey)
               else (w1\<lparr>users := users w @ [u]\<rparr>, Inr u)
      | _ \<Rightarrow> (w, Inl ValidationError))"

text \<open>
  \<^verbatim>\<open>registerUser\<close> looks for a user with the email of the body, then creates. The
  created document is never falsy, so the branch "Invalid user data" is not reached.
\<close>

definition registerUser :: "lib \<Rightarrow> env \<Rightarrow> world \<Rightarrow> (string \<rightharpoonup> string) \<Rightarrow> world \<times> outcome" where
  "registerUser L E w b =
     (let username = b ''username''; email = b ''email''; password = b ''password'' in
      case findOne_email w email of
        Some userExists \<Rightarrow> (w, Sent \<lparr>status = 400, body = Msg ''User already exists''\<rparr>)
      | None \<Rightarrow>
          (case User_create L E w username email password of
             (w', Inl e) \<Rightarrow> (w', Thrown e)
           | (w', Inr user) \<Rightarrow>
               (w', Sent \<lparr>status = 201,
                          body = AuthBody (u_id user) (user.username user) (user.email user)
                                   (jwt_sign L (u_id user))\<rparr>)))"

definition invalid_credentials :: response where
  "invalid_credentials = \<lparr>status = 401, body = Msg ''Invalid email or password''\<rparr>"

text \<open>
  \<^verbatim>\<open>loginUser\<close>: \<^verbatim>\<open>user && (await user.matchPassword(password))\<close>. The comparison
  runs only when a user was found; \<^verbatim>\<open>bcrypt.compare\<close> throws when one of its
  arguments is not a string.
\<close>

definition loginUser :: "lib \<Rightarrow> world \<Rightarrow> (string \<rightharpoonup> string) \<Rightarrow> world \<times> outcome" where
  "loginUser L w b =
     (let email = b ''email''; password = b ''password'' in
      case findOne_email w email of
        None \<Rightarrow> (w, Sent invalid_credentials)
      | Some user \<Rightarrow>
          (case (password, user.password user) of
             (Some p, Some h) \<Rightarrow>
               if bcrypt_compare L p h then
                 (w, Sent \<lparr>status = 200,
                           body = AuthBody (u_id user) (username user) (user.email user)
                                    (jwt_sign L (u_id user))\<rparr>)
               else (w, Sent invalid_credentials)
           | _ \<Rightarrow> (w, Thrown IllegalArguments)))"

section \<open>Routers and the application (routes/*.js, app.js)\<close>

datatype handler =
    H_registerUser | H_loginUser
  | H_createPost | H_getPosts | H_getPost | H_deletePost
  | H_sendMessage | H_getMessages | H_getMessage

text \<open>Route paths: \<^verbatim>\<open>'/'\<close>, \<^verbatim>\<open>'/:id'\<close> and a literal segment.\<close>

datatype pattern = Root | IdParam | Lit string

datatype layer = Use_authMiddleware | Route meth pattern handler

definition authRoutes :: "layer list" where
  "authRoutes = [Route POST (Lit ''register'') H_registerUser,
                 Route POST (Lit ''login'') H_loginUser]"

definition postRoutes :: "layer list" where
  "postRoutes = [Use_authMiddleware,
                 Route POST Root H_createPost,
                 Route GET Root H_getPosts,
                 Route GET IdParam H_getPost,
                 Route DELETE IdParam H_deletePost]"

definition messageRoutes :: "layer list" where
  "messageRoutes = [Use_authMiddleware,
                    Route POST Root H_sendMessage,
                    Route GET Root H_getMessages,
                    Route GET IdParam H_getMessage]"

text \<open>Whether a route path matches the rest of the request path, and the value of
  \<^verbatim>\<open>req.params.id\<close> then (empty where the route has no parameter).\<close>

fun match_path :: "pattern \<Rightarrow> string list \<Rightarrow> string option" where
  "match_path Root [] = Some []"
| "match_path IdParam [s] = Some s"
| "match_path (Lit l) [s] = (if s = l then Some [] else None)"
| "match_path _ _ = None"

fun run_handler ::
  "lib \<Rightarrow> env \<Rightarrow> handler \<Rightarrow> world \<Rightarrow> user option \<Rightarrow> string \<Rightarrow> (string \<rightharpoonup> string) \<Rightarrow> world \<times> outcome" where
  "run_handler L E H_registerUser w ru idp b = registerUser L E w b"
| "run_handler L E H_loginUser w ru idp b = loginUser L w b"
| "run_handler L E H_createPost w ru idp b = createPost E w ru b"
| "run_handler L E H_getPosts w ru idp b = getPosts w"
| "run_handler L E H_getPost w ru idp b = getPost L w idp"
| "run_handler L E H_deletePost w ru idp b = deletePost L w ru idp"
| "run_handler L E H_sendMessage w ru idp b = sendMessage L E w ru b"
| "run_handler L E H_getMessages w ru idp b = getMessages w ru"
| "run_handler L E H_getMessage w ru idp b = getMessage L w idp"

text \<open>What serving a request did: the handler that ran, if one did, the store
  afterwards and the outcome.\<close>

record served =
  handled :: "handler option"
  after :: world
  outcome :: outcome

text \<open>
  A router runs its layers in order. The auth gate either answers, which ends the run,
  or sets \<^verbatim>\<open>req.user\<close> and passes on. A route whose method and path match runs its
  handler, which ends the run. A request that no layer answers falls through to the
  final handler of Express, which answers 404.
\<close>

fun run_router ::
  "lib \<Rightarrow> env \<Rightarrow> layer list \<Rightarrow> world \<Rightarrow> request \<Rightarrow> user option \<Rightarrow> string list \<Rightarrow> served" where
  "run_router L E [] w rq ru segs =
     \<lparr>handled = None, after = w, outcome = Sent \<lparr>status = 404, body = NoRoute\<rparr>\<rparr>"
| "run_router L E (Use_authMiddleware # ls) w rq ru segs =
     (case authMiddleware L w rq of
        Rejected r \<Rightarrow> \<lparr>handled = None, after = w, outcome = Sent r\<rparr>
      | Proceed u \<Rightarrow> run_router L E ls w rq u segs)"
| "run_router L E (Route m p h # ls) w rq ru segs =
     (if req_method rq = m then
        (case match_path p segs of
           Some idp \<Rightarrow>
             (case run_handler L E h w ru idp (req_body rq) of
                (w', out) \<Rightarrow> \<lparr>handled = Some h, after = w', outcome = out\<rparr>)
         | None \<Rightarrow> run_router L E ls w rq ru segs)
      else run_router L E ls w rq ru segs)"

text \<open>\<^verbatim>\<open>app.use('/api/auth', authRoutes)\<close> and the two other mounts.\<close>

definition app :: "lib \<Rightarrow> env \<Rightarrow> world \<Rightarrow> request \<Rightarrow> served" where
  "app L E w rq =
     (if take 2 (path rq) = [''api'', ''auth''] then
        run_router L E authRoutes w rq None (drop 2 (path rq))
      else if take 2 (path rq) = [''api'', ''posts''] then
        run_router L E postRoutes w rq None (drop 2 (path rq))
      else if take 2 (path rq) = [''api'', ''messages''] then
        run_router L E messageRoutes w rq None (drop 2 (path rq))
      else \<lparr>handled = None, after = w, outcome = Sent \<lparr>status = 404, body = NoRoute\<rparr>\<rparr>)"

section \<open>A concrete store and concrete requests\<close>

text \<open>
  Three registered users, one post of alice, three messages. The library functions are
  fixed to small tables: the tokens \<^verbatim>\<open>t1\<close>, \<^verbatim>\<open>t2\<close>, \<^verbatim>\<open>t3\<close> verify to the ids of
  the three users, \<^verbatim>\<open>t9\<close> verifies to an id that no stored user has, every other token
  fails to verify; a hash is the plaintext behind a \<^verbatim>\<open>#\<close>.
\<close>

definition alice :: user where
  "alice = \<lparr>u_id = 1, username = ''alice'', email = ''alice@example.com'',
            password = Some ''#wonderland'', bio = None, profilePicture = None,
            followers = [], following = [], u_createdAt = 100, u_updatedAt = 100\<rparr>"

definition bob :: user where
  "bob = \<lparr>u_id = 2, username = ''bob'', email = ''bob@example.com'',
          password = Some ''#builder'', bio = None, profilePicture = Some ''bob.png'',
          followers = [], following = [], u_createdAt = 110, u_updatedAt = 110\<rparr>"

definition carol :: user where
  "carol = \<lparr>u_id = 3, username = ''carol'', email = ''carol@example.com'',
            password = Some ''#singer'', bio = Some ''hi'', profilePicture = None,
            followers = [], following = [], u_createdAt = 120, u_updatedAt = 120\<rparr>"

definition post10 :: post where
  "post10 = \<lparr>p_id = 10, p_user = 1, p_content = ''first post'', p_image = None,
             likes = [], comments = [], p_createdAt = 200, p_updatedAt = 200\<rparr>"

definition msg20 :: message where
  "msg20 = \<lparr>m_id = 20, sender = 1, recipient = 2, m_content = ''hello bob'',
            read = False, m_createdAt = 300, m_updatedAt = 300\<rparr>"

definition msg21 :: message where
  "msg21 = \<lparr>m_id = 21, sender = 3, recipient = 2, m_content = ''hi from carol'',
            read = False, m_createdAt = 400, m_updatedAt = 400\<rparr>"

definition msg22 :: message where
  "msg22 = \<lparr>m_id = 22, sender = 2, recipient = 1, m_content = ''hello alice'',
            read = False, m_createdAt = 350, m_updatedAt = 350\<rparr>"

definition world0 :: world where
  "world0 = \<lparr>users = [alice, bob, carol], posts = [post10],
             messages = [msg20, msg21, msg22], hash_calls = 0\<rparr>"

definition ids0 :: "(string \<times> oid) list" where
  "ids0 = [(''1'', 1), (''2'', 2), (''3'', 3), (''9'', 9), (''10'', 10), (''20'', 20)]"

definition lib0 :: lib where
  "lib0 = \<lparr>jwt_sign = (\<lambda>i. if i = 1 then ''t1'' else if i = 2 then ''t2''
                          else if i = 3 then ''t3'' else ''t9''),
           jwt_verify = map_of [(''t1'', ''1''), (''t2'', ''2''), (''t3'', ''3''), (''t9'', ''9'')],
           bcrypt_hash = (\<lambda>p. CHR ''#'' # p),
           bcrypt_compare = (\<lambda>p h. h = CHR ''#'' # p),
           cast_id = map_of ids0\<rparr>"

definition env0 :: env where
  "env0 = \<lparr>new_id = 30, now = 500\<rparr>"

definition bearer_request :: "meth \<Rightarrow> string list \<Rightarrow> string \<Rightarrow> (string \<rightharpoonup> string) \<Rightarrow> request" where
  "bearer_request m p t b = \<lparr>req_method = m, path = p, authorization = Some (''Bearer '' @ t), req_body = b\<rparr>"

definition no_body :: "string \<rightharpoonup> string" where
  "no_body = Map.empty"

text \<open>
  Bodies that carry an owner field of their own (\<^verbatim>\<open>user\<close>, \<^verbatim>\<open>sender\<close>) besides the
  fields the handlers read, and the documents that alice's requests create from them.
\<close>

definition spoof_post_1 :: "string \<rightharpoonup> string" where
  "spoof_post_1 = [''content'' \<mapsto> ''hi'', ''user'' \<mapsto> ''2'']"

definition spoof_post_2 :: "string \<rightharpoonup> string" where
  "spoof_post_2 = [''content'' \<mapsto> ''hi'', ''user'' \<mapsto> ''3'']"

definition spoof_message_1 :: "string \<rightharpoonup> string" where
  "spoof_message_1 = [''recipient'' \<mapsto> ''2'', ''content'' \<mapsto> ''yo'', ''sender'' \<mapsto> ''2'']"

definition spoof_message_2 :: "string \<rightharpoonup> string" where
  "spoof_message_2 = [''recipient'' \<mapsto> ''2'', ''content'' \<mapsto> ''yo'', ''sender'' \<mapsto> ''3'']"

definition post30 :: post where
  "post30 = \<lparr>p_id = 30, p_user = 1, p_content = ''hi'', p_image = None,
             likes = [], comments = [], p_createdAt = 500, p_updatedAt = 500\<rparr>"

definition msg30 :: message where
  "msg30 = \<lparr>m_id = 30, sender = 1, recipient = 2, m_content = ''yo'',
            read = False, m_createdAt = 500, m_updatedAt = 500\<rparr>"

lemmas scenario = alice_def bob_def carol_def post10_def msg20_def msg21_def msg22_def
  world0_def ids0_def lib0_def env0_def bearer_request_def no_body_def

lemmas gate_simps = authMiddleware_def second_def findById_user_def no_token_def token_failed_def

lemmas spoof = spoof_post_1_def spoof_post_2_def spoof_message_1_def spoof_message_2_def
  post30_def msg30_def

section \<open>Facts about the store queries and the gate\<close>

lemma find_holds: "find P xs = Some x \<Longrightarrow> P x \<and> x \<in> set xs"
  by (induction xs) (auto split: if_splits)

lemma set_remove_post: "x \<in> set (remove_post i ps) \<Longrightarrow> x \<in> set ps"
  by (induction ps) (auto split: if_splits)

lemma find_remove_post:
  "distinct (map p_id ps) \<Longrightarrow> find (\<lambda>p. p_id p = i) (remove_post i ps) = None"
proof (induction ps)
  case Nil
  then show ?case by simp
next
  case (Cons a ps)
  show ?case
  proof (cases "p_id a = i")
    case True
    with Cons.prems have "i \<notin> p_id ` set ps" by simp
    then have "find (\<lambda>p. p_id p = i) ps = None" unfolding find_None_iff by blast
    with True show ?thesis by simp
  next
    case False
    with Cons show ?thesis by simp
  qed
qed

lemma remove_post_remove1:
  "find (\<lambda>p. p_id p = i) ps = Some p \<Longrightarrow> remove_post i ps = remove1 p ps"
proof (induction ps)
  case Nil
  then show ?case by simp
next
  case (Cons a ps)
  show ?case
  proof (cases "p_id a = i")
    case True
    with Cons.prems show ?thesis by simp
  next
    case False
    with Cons.prems have f: "find (\<lambda>p. p_id p = i) ps = Some p" by simp
    from find_holds [OF f] have "p_id p = i" by simp
    with False have "a \<noteq> p" by auto
    with False Cons.IH [OF f] show ?thesis by simp
  qed
qed

lemma gate_rejects:
  assumes "\<forall>h t. authorization rq = Some h \<longrightarrow> second (split_space h) = Some t \<longrightarrow> jwt_verify L t = None"
  shows "authMiddleware L w rq = Rejected no_token \<or> authMiddleware L w rq = Rejected token_failed"
  using assms by (auto simp: authMiddleware_def split: option.splits)

lemma gate_status:
  "authMiddleware L w rq = Rejected r \<Longrightarrow> status r = 401"
  by (auto simp: authMiddleware_def no_token_def token_failed_def split: option.splits if_splits)

lemma router_posts_rejected:
  "authMiddleware L w rq = Rejected r \<Longrightarrow>
   run_router L E postRoutes w rq ru segs = \<lparr>handled = None, after = w, outcome = Sent r\<rparr>"
  by (simp add: postRoutes_def)

lemma router_messages_rejected:
  "authMiddleware L w rq = Rejected r \<Longrightarrow>
   run_router L E messageRoutes w rq ru segs = \<lparr>handled = None, after = w, outcome = Sent r\<rparr>"
  by (simp add: messageRoutes_def)

lemma split_space_no_space: "CHR '' '' \<notin> set t \<Longrightarrow> split_space t = [t]"
  by (induction t) auto

text \<open>A header \<^verbatim>\<open>Bearer <token>\<close> whose token verifies passes the gate with the
  stored user of the token's id, or with null when there is none.\<close>

lemma gate_proceeds:
  assumes "authorization rq = Some (''Bearer '' @ t)" and "t \<noteq> []" and "CHR '' '' \<notin> set t"
      and "jwt_verify L t = Some sid" and "cast_id L sid = Some i"
  shows "authMiddleware L w rq = Proceed (map_option (\<lambda>u. u\<lparr>password := None\<rparr>) (findById_user w i))"
  using assms by (simp add: authMiddleware_def second_def split_space_no_space)

lemma newest_first_mset: "mset (newest_first c xs) = mset xs"
  by (simp add: newest_first_def)

lemma newest_first_sorted:
  "sorted_wrt (\<lambda>a b. c b \<le> c a) (newest_first c xs)"
proof -
  have "sorted (map (\<lambda>x. - int (c x)) (newest_first c xs))"
    by (simp add: newest_first_def)
  then show ?thesis
    by (simp add: sorted_map)
qed

text \<open>A registration with the email of a stored user is answered 400 and changes
  nothing, the count of hash calls included.\<close>

lemma registerUser_existing_email:
  assumes "b ''email'' = Some e" and "e \<in> email ` set (users w)"
  shows "registerUser L E w b = (w, Sent \<lparr>status = 400, body = Msg ''User already exists''\<rparr>)"
proof -
  from assms(2) have "find (\<lambda>u. email u = e) (users w) \<noteq> None"
    unfolding find_None_iff by blast
  with assms(1) show ?thesis
    by (auto simp: registerUser_def findOne_email_def)
qed

text \<open>
  What \<^verbatim>\<open>GET /api/messages/:id\<close> does once the gate has passed the request on,
  whatever was attached to it: an id that is no ObjectId throws, an id that no message has
  is answered 404, and a stored message is answered with status 200.
\<close>

lemma getMessage_route:
  assumes "req_method rq = GET" and "path rq = [''api'', ''messages'', idp]"
      and "authMiddleware L w rq = Proceed ru"
  shows "app L E w rq =
     (case cast_id L idp of
        None \<Rightarrow> \<lparr>handled = Some H_getMessage, after = w, outcome = Thrown CastError\<rparr>
      | Some i \<Rightarrow>
          (case findById_message w i of
             None \<Rightarrow> \<lparr>handled = Some H_getMessage, after = w, outcome = Sent message_not_found\<rparr>
           | Some m \<Rightarrow>
               \<lparr>handled = Some H_getMessage, after = w,
                outcome = Sent \<lparr>status = 200,
                  body = MessageView m (populate_user w (sender m))
                           (populate_user w (recipient m))\<rparr>\<rparr>))"
  using assms
  by (simp add: app_def messageRoutes_def getMessage_def split: option.splits)

text \<open>
  A login that supplies a password: an unknown email and a password that does not match
  the stored hash are answered alike.
\<close>

lemma loginUser_wrong_password:
  assumes unknown: "findOne_email w (b1 ''email'') = None"
      and known: "findOne_email w (b2 ''email'') = Some u"
      and stored: "password u = Some h"
      and given: "b2 ''password'' = Some p"
      and wrong: "\<not> bcrypt_compare L p h"
  shows "loginUser L w b1 = (w, Sent \<lparr>status = 401, body = Msg ''Invalid email or password''\<rparr>)
       \<and> loginUser L w b2 = loginUser L w b1"
  using assms by (simp add: loginUser_def invalid_credentials_def)

section \<open>The claims\<close>

text \<open>
  Claim C1: a request \<^verbatim>\<open>GET /api/messages/:id\<close> of an identity that is neither the
  sender nor the recipient of the stored message must be answered 404. The code at such
  a request: message 20 is from alice to bob, carol's token passes the gate with carol
  attached, \<^verbatim>\<open>getMessage\<close> finds the message and, without reading \<^verbatim>\<open>req.user\<close>,
  answers 200 with it. The listing \<^verbatim>\<open>getMessages\<close> of the same controller does
  restrict its answer to \<^verbatim>\<open>req.user._id\<close>: carol's inbox does not hold message 20.
\<close>

theorem getMessage_third_party:
  "u_id carol \<noteq> sender msg20 \<and> u_id carol \<noteq> recipient msg20
   \<and> findById_message world0 20 = Some msg20
   \<and> authMiddleware lib0 world0 (bearer_request GET [''api'', ''messages'', ''20''] ''t3'' no_body)
       = Proceed (Some (carol\<lparr>password := None\<rparr>))
   \<and> app lib0 env0 world0 (bearer_request GET [''api'', ''messages'', ''20''] ''t3'' no_body)
       = \<lparr>handled = Some H_getMessage, after = world0,
          outcome = Sent \<lparr>status = 200,
            body = MessageView msg20
              (Some \<lparr>pr_id = 1, pr_username = ''alice'', pr_profilePicture = None\<rparr>)
              (Some \<lparr>pr_id = 2, pr_username = ''bob'', pr_profilePicture = Some ''bob.png''\<rparr>)\<rparr>\<rparr>
   \<and> app lib0 env0 world0 (bearer_request GET [''api'', ''messages''] ''t3'' no_body)
       = \<lparr>handled = Some H_getMessages, after = world0,
          outcome = Sent \<lparr>status = 200, body = MessageViews []\<rparr>\<rparr>"
  by (simp add: scenario gate_simps app_def messageRoutes_def findById_message_def
      getMessage_def getMessages_def newest_first_def populate_user_def)

text \<open>
  Claim C2: a bearer token that verifies but whose id matches no stored user must be
  rejected with 401 before any handler. The code at such a request: the token
  \<^verbatim>\<open>t9\<close> verifies to id 9, no user has id 9, the gate calls \<^verbatim>\<open>next()\<close> with
  \<^verbatim>\<open>req.user\<close> null, \<^verbatim>\<open>getPosts\<close> runs and answers 200, and \<^verbatim>\<open>createPost\<close> runs
  and throws on \<^verbatim>\<open>req.user._id\<close>.
\<close>

theorem authMiddleware_missing_identity:
  "jwt_verify lib0 ''t9'' = Some ''9'' \<and> findById_user world0 9 = None
   \<and> authMiddleware lib0 world0 (bearer_request GET [''api'', ''posts''] ''t9'' no_body) = Proceed None
   \<and> app lib0 env0 world0 (bearer_request GET [''api'', ''posts''] ''t9'' no_body)
       = \<lparr>handled = Some H_getPosts, after = world0,
          outcome = Sent \<lparr>status = 200,
            body = PostViews [(post10,
              Some \<lparr>pr_id = 1, pr_username = ''alice'', pr_profilePicture = None\<rparr>, [])]\<rparr>\<rparr>
   \<and> app lib0 env0 world0 (bearer_request POST [''api'', ''posts''] ''t9'' [''content'' \<mapsto> ''x''])
       = \<lparr>handled = Some H_createPost, after = world0, outcome = Thrown TypeError\<rparr>"
  by (simp add: scenario gate_simps app_def postRoutes_def getPosts_def createPost_def
      populate_post_def populate_user_def newest_first_def)

text \<open>
  Claim C3: a registration with the username or the email of a stored user must be
  answered 400 before any hashing. The code at a registration with alice's username and
  a new email: the lookup by email finds nothing, \<^verbatim>\<open>User.create\<close> hashes the password,
  the insert fails on the unique index of \<^verbatim>\<open>username\<close>, and the handler throws
  without an answer. No user is added.
\<close>

theorem registerUser_duplicate_username:
  "list_ex (\<lambda>u. username u = ''alice'') (users world0)
   \<and> findOne_email world0 (Some ''new@example.com'') = None
   \<and> registerUser lib0 env0 world0
        [''username'' \<mapsto> ''alice'', ''email'' \<mapsto> ''new@example.com'', ''password'' \<mapsto> ''pw'']
       = (world0\<lparr>hash_calls := 1\<rparr>, Thrown DuplicateKey)"
  by (simp add: scenario registerUser_def User_create_def findOne_email_def)

text \<open>
  Claim C4: for \<^verbatim>\<open>DELETE /api/posts/:id\<close> with a resolved identity and a stored post
  of that id: when the post's owner is the identity, the answer is 200 "Post removed" and
  the post is removed from the store (with unique ids, a lookup of the id then finds
  nothing); when the owner differs, the answer is 404 "Post not found", not 403, and the
  store is unchanged, the post still there.
\<close>

theorem deletePost_owner_only:
  assumes "cast_id L idp = Some i" and "findById_post w i = Some p"
  shows "(p_user p = u_id u \<longrightarrow>
            deletePost L w (Some u) idp
              = (w\<lparr>posts := remove1 p (posts w)\<rparr>, Sent \<lparr>status = 200, body = Msg ''Post removed''\<rparr>)
            \<and> (distinct (map p_id (posts w)) \<longrightarrow>
                 findById_post (fst (deletePost L w (Some u) idp)) i = None))
       \<and> (p_user p \<noteq> u_id u \<longrightarrow>
            deletePost L w (Some u) idp = (w, Sent \<lparr>status = 404, body = Msg ''Post not found''\<rparr>)
            \<and> findById_post (fst (deletePost L w (Some u) idp)) i = Some p)"
proof -
  from assms(2) have f: "find (\<lambda>p. p_id p = i) (posts w) = Some p"
    by (simp add: findById_post_def)
  from find_holds [OF f] have id: "p_id p = i" by simp
  have rm: "remove_post i (posts w) = remove1 p (posts w)"
    using f by (rule remove_post_remove1)
  have owner: "deletePost L w (Some u) idp
      = (w\<lparr>posts := remove1 p (posts w)\<rparr>, Sent \<lparr>status = 200, body = Msg ''Post removed''\<rparr>)"
    if "p_user p = u_id u"
    using assms that id rm by (simp add: deletePost_def)
  have gone: "findById_post (fst (deletePost L w (Some u) idp)) i = None"
    if "p_user p = u_id u" "distinct (map p_id (posts w))"
    using owner [OF that(1)] find_remove_post [OF that(2), of i] rm
    by (simp add: findById_post_def)
  have other: "deletePost L w (Some u) idp = (w, Sent \<lparr>status = 404, body = Msg ''Post not found''\<rparr>)"
    if "p_user p \<noteq> u_id u"
    using assms that by (simp add: deletePost_def post_not_found_def)
  show ?thesis
    using owner gone other assms(2) by simp
qed

text \<open>
  Claim C4 on the concrete store: alice deletes her post 10; bob's attempt on the same
  post is answered 404 and leaves it in place.
\<close>

theorem deletePost_owner_only_witness:
  "deletePost lib0 world0 (Some (alice\<lparr>password := None\<rparr>)) ''10''
     = (world0\<lparr>posts := []\<rparr>, Sent \<lparr>status = 200, body = Msg ''Post removed''\<rparr>)
   \<and> findById_post (world0\<lparr>posts := []\<rparr>) 10 = None
   \<and> deletePost lib0 world0 (Some (bob\<lparr>password := None\<rparr>)) ''10''
     = (world0, Sent \<lparr>status = 404, body = Msg ''Post not found''\<rparr>)
   \<and> findById_post world0 10 = Some post10"
  using deletePost_owner_only [of lib0 "''10''" 10 world0 post10 "alice\<lparr>password := None\<rparr>"]
    deletePost_owner_only [of lib0 "''10''" 10 world0 post10 "bob\<lparr>password := None\<rparr>"]
  by (simp add: scenario findById_post_def)

text \<open>
  Claim C5: \<^verbatim>\<open>createPost\<close> and \<^verbatim>\<open>sendMessage\<close> with a resolved identity either fail
  validation and store nothing, or store exactly one new document whose owner field
  (\<^verbatim>\<open>user\<close>, \<^verbatim>\<open>sender\<close>) is the id of the resolved identity, whatever the body
  holds; two successful requests of the same identity with different bodies store the
  same owners.
\<close>

theorem creation_owner_from_identity:
  "(createPost E w (Some u) bp = (wp, outp) \<longrightarrow>
      (outp = Thrown ValidationError \<and> wp = w)
      \<or> (\<exists>p. outp = Sent \<lparr>status = 201, body = PostDoc p\<rparr>
              \<and> wp = w\<lparr>posts := posts w @ [p]\<rparr> \<and> p_user p = u_id u))
   \<and> (sendMessage L E w (Some u) bm = (wm, outm) \<longrightarrow>
      (outm = Thrown ValidationError \<and> wm = w)
      \<or> (\<exists>m. outm = Sent \<lparr>status = 201, body = MessageDoc m\<rparr>
              \<and> wm = w\<lparr>messages := messages w @ [m]\<rparr> \<and> sender m = u_id u))
   \<and> (createPost E w (Some u) bp = (wp, Sent rp) \<and> createPost E w (Some u) bp' = (wp', Sent rp')
        \<longrightarrow> map p_user (posts wp) = map p_user (posts wp'))
   \<and> (sendMessage L E w (Some u) bm = (wm, Sent rm) \<and> sendMessage L E w (Some u) bm' = (wm', Sent rm')
        \<longrightarrow> map sender (messages wm) = map sender (messages wm'))"
proof -
  have cp: "(out = Thrown ValidationError \<and> v = w)
      \<or> (\<exists>p. out = Sent \<lparr>status = 201, body = PostDoc p\<rparr>
              \<and> v = w\<lparr>posts := posts w @ [p]\<rparr> \<and> p_user p = u_id u)"
    if "createPost E w (Some u) c = (v, out)" for c v out
    using that by (auto simp: createPost_def Let_def split: option.splits if_splits)
  have sm: "(out = Thrown ValidationError \<and> v = w)
      \<or> (\<exists>m. out = Sent \<lparr>status = 201, body = MessageDoc m\<rparr>
              \<and> v = w\<lparr>messages := messages w @ [m]\<rparr> \<and> sender m = u_id u)"
    if "sendMessage L E w (Some u) c = (v, out)" for c v out
    using that by (auto simp: sendMessage_def Let_def split: option.splits if_splits)
  have cp2: "map p_user (posts v) = map p_user (posts v')"
    if "createPost E w (Some u) c = (v, Sent r)" "createPost E w (Some u) c' = (v', Sent r')"
    for c c' v v' r r'
    using cp [OF that(1)] cp [OF that(2)] by auto
  have sm2: "map sender (messages v) = map sender (messages v')"
    if "sendMessage L E w (Some u) c = (v, Sent r)" "sendMessage L E w (Some u) c' = (v', Sent r')"
    for c c' v v' r r'
    using sm [OF that(1)] sm [OF that(2)] by auto
  show ?thesis
    using cp [of bp wp outp] sm [of bm wm outm] cp2 [of bp wp rp bp' wp' rp']
      sm2 [of bm wm rm bm' wm' rm']
    by blast
qed

text \<open>
  Claim C5 on the concrete store: alice's requests with a body field \<^verbatim>\<open>user\<close> or
  \<^verbatim>\<open>sender\<close> naming bob, and naming carol, all store alice as the owner.
\<close>

theorem creation_owner_from_identity_witness:
  "createPost env0 world0 (Some alice) spoof_post_1
     = (world0\<lparr>posts := [post10, post30]\<rparr>, Sent \<lparr>status = 201, body = PostDoc post30\<rparr>)
   \<and> createPost env0 world0 (Some alice) spoof_post_2
     = (world0\<lparr>posts := [post10, post30]\<rparr>, Sent \<lparr>status = 201, body = PostDoc post30\<rparr>)
   \<and> sendMessage lib0 env0 world0 (Some alice) spoof_message_1
     = (world0\<lparr>messages := [msg20, msg21, msg22, msg30]\<rparr>, Sent \<lparr>status = 201, body = MessageDoc msg30\<rparr>)
   \<and> sendMessage lib0 env0 world0 (Some alice) spoof_message_2
     = (world0\<lparr>messages := [msg20, msg21, msg22, msg30]\<rparr>, Sent \<lparr>status = 201, body = MessageDoc msg30\<rparr>)
   \<and> p_user post30 = u_id alice \<and> sender msg30 = u_id alice
   \<and> spoof_post_1 ''user'' = Some ''2'' \<and> spoof_post_2 ''user'' = Some ''3''
   \<and> spoof_message_1 ''sender'' = Some ''2'' \<and> spoof_message_2 ''sender'' = Some ''3''"
  using creation_owner_from_identity [where E = env0 and L = lib0 and w = world0 and u = alice
      and bp = spoof_post_1 and bp' = spoof_post_2
      and bm = spoof_message_1 and bm' = spoof_message_2
      and wp = "world0\<lparr>posts := [post10, post30]\<rparr>"
      and wp' = "world0\<lparr>posts := [post10, post30]\<rparr>"
      and wm = "world0\<lparr>messages := [msg20, msg21, msg22, msg30]\<rparr>"
      and wm' = "world0\<lparr>messages := [msg20, msg21, msg22, msg30]\<rparr>"
      and outp = "Sent \<lparr>status = 201, body = PostDoc post30\<rparr>"
      and outm = "Sent \<lparr>status = 201, body = MessageDoc msg30\<rparr>"
      and rp = "\<lparr>status = 201, body = PostDoc post30\<rparr>"
      and rp' = "\<lparr>status = 201, body = PostDoc post30\<rparr>"
      and rm = "\<lparr>status = 201, body = MessageDoc msg30\<rparr>"
      and rm' = "\<lparr>status = 201, body = MessageDoc msg30\<rparr>"]
  by (simp add: scenario spoof createPost_def sendMessage_def Let_def)

text \<open>
  Claim C6: whenever the gate passes a request on with an identity attached, that
  identity has no password, and it is the stored user of the id in the verified token
  with every other field as stored.
\<close>

theorem gate_strips_password:
  assumes "authMiddleware L w rq = Proceed (Some a)"
  shows "password a = None
       \<and> (\<exists>h t sid i u. authorization rq = Some h \<and> second (split_space h) = Some t
             \<and> jwt_verify L t = Some sid \<and> cast_id L sid = Some i
             \<and> findById_user w i = Some u \<and> u \<in> set (users w)
             \<and> a = u\<lparr>password := None\<rparr>
             \<and> u_id a = u_id u \<and> username a = username u \<and> email a = email u
             \<and> bio a = bio u \<and> profilePicture a = profilePicture u
             \<and> followers a = followers u \<and> following a = following u)"
proof -
  from assms obtain h t sid i u where
    *: "authorization rq = Some h" "second (split_space h) = Some t"
       "jwt_verify L t = Some sid" "cast_id L sid = Some i"
       "findById_user w i = Some u" "a = u\<lparr>password := None\<rparr>"
    by (auto simp: authMiddleware_def split: option.splits if_splits)
  from *(5) have "u \<in> set (users w)"
    using find_holds [of "\<lambda>u. u_id u = i" "users w" u] by (simp add: findById_user_def)
  with * show ?thesis by auto
qed

text \<open>
  Claim C6 on the concrete store: bob's token attaches bob without his password hash,
  his username and profile picture present.
\<close>

theorem gate_strips_password_witness:
  "authMiddleware lib0 world0 (bearer_request GET [''api'', ''posts''] ''t2'' no_body)
     = Proceed (Some (bob\<lparr>password := None\<rparr>))
   \<and> password bob = Some ''#builder''
   \<and> password (bob\<lparr>password := None\<rparr>) = None
   \<and> username (bob\<lparr>password := None\<rparr>) = ''bob''
   \<and> profilePicture (bob\<lparr>password := None\<rparr>) = Some ''bob.png''"
  using gate_strips_password [of lib0 world0
      "bearer_request GET [''api'', ''posts''] ''t2'' no_body" "bob\<lparr>password := None\<rparr>"]
  by (simp add: scenario gate_simps)

text \<open>
  Claim C7: a login with a wrong password for the email of a stored user and a login
  with an unknown email must get the same failure answer. The code at two logins whose
  body has no \<^verbatim>\<open>password\<close> field: for bob's email the user is found,
  \<^verbatim>\<open>matchPassword\<close> calls \<^verbatim>\<open>bcrypt.compare\<close> with an undefined password, which
  throws, and no answer is sent; for an unknown email the answer is 401 "Invalid email
  or password". The two causes are told apart.
\<close>

theorem loginUser_missing_password:
  "findOne_email world0 (Some ''bob@example.com'') = Some bob
   \<and> findOne_email world0 (Some ''nobody@example.com'') = None
   \<and> app lib0 env0 world0
        \<lparr>req_method = POST, path = [''api'', ''auth'', ''login''], authorization = None,
         req_body = [''email'' \<mapsto> ''bob@example.com'']\<rparr>
       = \<lparr>handled = Some H_loginUser, after = world0, outcome = Thrown IllegalArguments\<rparr>
   \<and> app lib0 env0 world0
        \<lparr>req_method = POST, path = [''api'', ''auth'', ''login''], authorization = None,
         req_body = [''email'' \<mapsto> ''nobody@example.com'']\<rparr>
       = \<lparr>handled = Some H_loginUser, after = world0,
          outcome = Sent \<lparr>status = 401, body = Msg ''Invalid email or password''\<rparr>\<rparr>"
  by (simp add: scenario app_def authRoutes_def loginUser_def findOne_email_def
      invalid_credentials_def)

text \<open>
  Claim C8: with a resolved identity, \<^verbatim>\<open>getMessages\<close> answers 200 with exactly the
  stored messages whose recipient is that identity (as a multiset: each once), newest
  first by creation time, each with its sender populated.
\<close>

theorem getMessages_inbox:
  "\<exists>vs. getMessages w (Some u) = (w, Sent \<lparr>status = 200, body = MessageViews vs\<rparr>)
      \<and> mset (map fst vs) = filter_mset (\<lambda>m. recipient m = u_id u) (mset (messages w))
      \<and> sorted_wrt (\<lambda>a b. m_createdAt b \<le> m_createdAt a) (map fst vs)
      \<and> (\<forall>v \<in> set vs. snd v = populate_user w (sender (fst v)))"
proof -
  define inbox where "inbox = newest_first m_createdAt (filter (\<lambda>m. recipient m = u_id u) (messages w))"
  define vs where "vs = map (\<lambda>m. (m, populate_user w (sender m))) inbox"
  have fst_vs: "map fst vs = inbox"
    by (simp add: vs_def comp_def)
  have "getMessages w (Some u) = (w, Sent \<lparr>status = 200, body = MessageViews vs\<rparr>)"
    by (simp add: getMessages_def vs_def inbox_def)
  moreover have "mset (map fst vs) = filter_mset (\<lambda>m. recipient m = u_id u) (mset (messages w))"
    unfolding fst_vs by (simp add: inbox_def newest_first_mset)
  moreover have "sorted_wrt (\<lambda>a b. m_createdAt b \<le> m_createdAt a) (map fst vs)"
    unfolding fst_vs by (simp add: inbox_def newest_first_sorted)
  moreover have "\<forall>v \<in> set vs. snd v = populate_user w (sender (fst v))"
    by (auto simp: vs_def)
  ultimately show ?thesis by blast
qed

text \<open>
  Claim C8 on the concrete store: bob's inbox holds the messages 21 and 20, in this
  order, and not message 22, which is addressed to alice.
\<close>

theorem getMessages_inbox_witness:
  "getMessages world0 (Some (bob\<lparr>password := None\<rparr>))
     = (world0, Sent \<lparr>status = 200, body = MessageViews
          [(msg21, Some \<lparr>pr_id = 3, pr_username = ''carol'', pr_profilePicture = None\<rparr>),
           (msg20, Some \<lparr>pr_id = 1, pr_username = ''alice'', pr_profilePicture = None\<rparr>)]\<rparr>)"
  using getMessages_inbox [of world0 "bob\<lparr>password := None\<rparr>"]
  by (simp add: scenario getMessages_def newest_first_def populate_user_def findById_user_def)

text \<open>
  Claim C9: every request under \<^verbatim>\<open>/api/posts\<close> or \<^verbatim>\<open>/api/messages\<close>, whatever its
  method and the rest of its path, that has no \<^verbatim>\<open>Authorization\<close> header or whose
  header carries no token that verifies, is answered 401 by the gate; no handler runs
  and the store is unchanged.
\<close>

theorem protected_routes_behind_gate:
  assumes mount: "take 2 (path rq) = [''api'', ''posts''] \<or> take 2 (path rq) = [''api'', ''messages'']"
      and bad: "\<forall>h t. authorization rq = Some h \<longrightarrow> second (split_space h) = Some t \<longrightarrow> jwt_verify L t = None"
  shows "\<exists>r. app L E w rq = \<lparr>handled = None, after = w, outcome = Sent r\<rparr> \<and> status r = 401
             \<and> (r = no_token \<or> r = token_failed)"
proof -
  from gate_rejects [OF bad] obtain r where
    r: "authMiddleware L w rq = Rejected r" "r = no_token \<or> r = token_failed"
    by blast
  have "app L E w rq = \<lparr>handled = None, after = w, outcome = Sent r\<rparr>"
    using mount r(1) by (auto simp: app_def router_posts_rejected router_messages_rejected)
  with r gate_status show ?thesis by blast
qed

text \<open>
  Claim C9 on the concrete store: a delete with a forged token and a listing with no
  header are both stopped at the gate.
\<close>

theorem protected_routes_behind_gate_witness:
  "jwt_verify lib0 ''forged'' = None
   \<and> app lib0 env0 world0 (bearer_request DELETE [''api'', ''posts'', ''10''] ''forged'' no_body)
       = \<lparr>handled = None, after = world0, outcome = Sent token_failed\<rparr>
   \<and> app lib0 env0 world0
        \<lparr>req_method = GET, path = [''api'', ''messages''], authorization = None, req_body = no_body\<rparr>
       = \<lparr>handled = None, after = world0, outcome = Sent no_token\<rparr>"
  using protected_routes_behind_gate [of "bearer_request DELETE [''api'', ''posts'', ''10''] ''forged'' no_body"
      lib0 env0 world0]
    protected_routes_behind_gate [of
      "\<lparr>req_method = GET, path = [''api'', ''messages''], authorization = None, req_body = no_body\<rparr>"
      lib0 env0 world0]
  by (simp add: scenario gate_simps app_def postRoutes_def messageRoutes_def)

text \<open>
  Claim C10: with a resolved identity, a recipient that casts to an ObjectId and a
  non-empty content, \<^verbatim>\<open>sendMessage\<close> stores the message and answers 201 with it,
  whether a user with the recipient's id exists or not; and whenever \<^verbatim>\<open>sendMessage\<close>
  answers at all, the status is 201, never 404.
\<close>

theorem sendMessage_no_recipient_check:
  assumes "b ''recipient'' = Some rs" and "cast_id L rs = Some r"
      and "b ''content'' = Some c" and "c \<noteq> []"
  shows "sendMessage L E w (Some u) b
           = (w\<lparr>messages := messages w @
                  [\<lparr>m_id = new_id E, sender = u_id u, recipient = r, m_content = c,
                    read = False, m_createdAt = now E, m_updatedAt = now E\<rparr>]\<rparr>,
              Sent \<lparr>status = 201,
                    body = MessageDoc \<lparr>m_id = new_id E, sender = u_id u, recipient = r,
                      m_content = c, read = False, m_createdAt = now E, m_updatedAt = now E\<rparr>\<rparr>)
       \<and> (sendMessage L E w ru' b' = (w', Sent r') \<longrightarrow> status r' = 201)"
  using assms
  by (auto simp: sendMessage_def Let_def split: option.splits if_splits)

text \<open>
  Claim C10 on the concrete store: alice's message to id 9, which no user has, is
  stored and answered 201.
\<close>

theorem sendMessage_no_recipient_check_witness:
  "findById_user world0 9 = None
   \<and> sendMessage lib0 env0 world0 (Some (alice\<lparr>password := None\<rparr>))
        [''recipient'' \<mapsto> ''9'', ''content'' \<mapsto> ''anyone there?'']
       = (world0\<lparr>messages := [msg20, msg21, msg22,
            \<lparr>m_id = 30, sender = 1, recipient = 9, m_content = ''anyone there?'',
             read = False, m_createdAt = 500, m_updatedAt = 500\<rparr>]\<rparr>,
          Sent \<lparr>status = 201,
            body = MessageDoc \<lparr>m_id = 30, sender = 1, recipient = 9,
              m_content = ''anyone there?'', read = False,
              m_createdAt = 500, m_updatedAt = 500\<rparr>\<rparr>)"
  using sendMessage_no_recipient_check [of
      "[''recipient'' \<mapsto> ''9'', ''content'' \<mapsto> ''anyone there?'']" "''9''" lib0 9
      "''anyone there?''" env0 world0 "alice\<lparr>password := None\<rparr>"]
  by (simp add: scenario findById_user_def)

end
